theory Spec2Isabelle
  imports Main "HOL-Library.Sublist"
begin

section \<open>Python values and the secret source\<close>

text \<open>
  The values a TOML secrets file can hold, as Python sees them. A table is a \<open>dict\<close>,
  kept as an association list read with \<open>map_of\<close> (keys of a Python dict are unique).
\<close>

datatype pyval =
    VNone
  | VBool bool
  | VInt int
  | VStr string
  | VList "pyval list"
  | VDict "(string \<times> pyval) list"

datatype py_error =
    IndexError
  | KeyError
  | TypeError
  | AttributeError
  | SdkError string

text \<open>Python truthiness, as used by \<open>if not st.secrets.get(section)\<close>.\<close>

fun truthy :: "pyval \<Rightarrow> bool" where
  "truthy VNone = False"
| "truthy (VBool b) = b"
| "truthy (VInt i) = (i \<noteq> 0)"
| "truthy (VStr s) = (s \<noteq> [])"
| "truthy (VList xs) = (xs \<noteq> [])"
| "truthy (VDict d) = (d \<noteq> [])"

text \<open>\<open>isinstance(v, dict)\<close>\<close>

fun isinstance_dict :: "pyval \<Rightarrow> bool" where
  "isinstance_dict (VDict d) = True"
| "isinstance_dict v = False"

text \<open>
  \<open>part in v\<close>: key membership on a dict, element membership on a list, substring test on a
  string, and a \<open>TypeError\<close> on every value that is not a container.
\<close>

fun py_contains :: "pyval \<Rightarrow> string \<Rightarrow> py_error + bool" where
  "py_contains (VDict d) k = Inr (map_of d k \<noteq> None)"
| "py_contains (VList xs) k = Inr (VStr k \<in> set xs)"
| "py_contains (VStr s) k = Inr (sublist k s)"
| "py_contains v k = Inl TypeError"

text \<open>\<open>v[k]\<close> with a string subscript: \<open>KeyError\<close> on a dict without the key, \<open>TypeError\<close> elsewhere.\<close>

fun py_getitem :: "pyval \<Rightarrow> string \<Rightarrow> py_error + pyval" where
  "py_getitem (VDict d) k = (case map_of d k of None \<Rightarrow> Inl KeyError | Some v \<Rightarrow> Inr v)"
| "py_getitem v k = Inl TypeError"

text \<open>
  \<open>st.secrets\<close>: either an object without a \<open>get\<close> method (the case line 18 of
  \<open>authentication.py\<close> guards against) or a mapping from section names to values.
\<close>

datatype secret_source = Unavailable | Source "(string \<times> pyval) list"

text \<open>\<open>st.secrets.get(name)\<close> on a mapping: \<open>None\<close> when the name is absent.\<close>

definition secrets_get :: "(string \<times> pyval) list \<Rightarrow> string \<Rightarrow> pyval" where
  "secrets_get m section_name = (case map_of m section_name of None \<Rightarrow> VNone | Some v \<Rightarrow> v)"

text \<open>\<open>key.split(".")\<close>: never the empty list; an empty string gives one empty part.\<close>

fun split_on :: "char \<Rightarrow> string \<Rightarrow> string list" where
  "split_on c [] = [[]]"
| "split_on c (x # xs) =
     (if x = c then [] # split_on c xs
      else (case split_on c xs of [] \<Rightarrow> [[x]] | w # ws \<Rightarrow> (x # w) # ws))"

definition split_dot :: "string \<Rightarrow> string list" where
  "split_dot key = split_on (CHR ''.'') key"

text \<open>The two identifier formats of the missing list: \<open>f"Section '{section_name}'"\<close> and
  \<open>f"'{section_name}.{key}'"\<close>.\<close>

definition section_ident :: "string \<Rightarrow> string" where
  "section_ident section_name = ''Section '' @ [CHR 0x27] @ section_name @ [CHR 0x27]"

definition key_ident :: "string \<Rightarrow> string \<Rightarrow> string" where
  "key_ident section_name key = [CHR 0x27] @ section_name @ ''.'' @ key @ [CHR 0x27]"

section \<open>check_secrets_available\<close>

text \<open>
  An entry of \<open>required_sections\<close>: a string (simple key check), a dict from a section name to
  its key paths (an association list, in insertion order), or anything else, which the
  loop skips.
\<close>

datatype required = RStr string | RDict "(string \<times> string list) list" | ROther

text \<open>
  Lines 37 to 43: the walk over the parts of one dotted key, with the \<open>break\<close> after the first
  part that cannot be followed. \<open>isinstance(...) and part in ...\<close> short-circuits.
\<close>

fun walk_parts :: "string \<Rightarrow> string \<Rightarrow> pyval \<Rightarrow> string list \<Rightarrow> string list \<Rightarrow> py_error + string list" where
  "walk_parts section_name key current_level [] missing = Inr missing"
| "walk_parts section_name key current_level (part # parts) missing =
     (if isinstance_dict current_level then
        (case py_contains current_level part of
           Inl e \<Rightarrow> Inl e
         | Inr found \<Rightarrow>
             if found then
               (case py_getitem current_level part of
                  Inl e \<Rightarrow> Inl e
                | Inr v \<Rightarrow> walk_parts section_name key v parts missing)
             else Inr (missing @ [key_ident section_name key]))
      else Inr (missing @ [key_ident section_name key]))"

text \<open>Lines 32 to 43: the loop over the keys of one section.\<close>

fun check_keys :: "(string \<times> pyval) list \<Rightarrow> string \<Rightarrow> string list \<Rightarrow> string list \<Rightarrow> py_error + string list" where
  "check_keys m section_name [] missing = Inr missing"
| "check_keys m section_name (key # keys) missing =
     (case walk_parts section_name key (secrets_get m section_name) (split_dot key) missing of
        Inl e \<Rightarrow> Inl e
      | Inr missing' \<Rightarrow> check_keys m section_name keys missing')"

text \<open>Lines 23 to 43: one entry. \<open>list(section.keys())[0]\<close> raises on an empty dict.\<close>

fun check_section :: "(string \<times> pyval) list \<Rightarrow> required \<Rightarrow> string list \<Rightarrow> py_error + string list" where
  "check_section m (RStr section) missing =
     Inr (if \<not> truthy (secrets_get m section) then missing @ [section] else missing)"
| "check_section m (RDict []) missing = Inl IndexError"
| "check_section m (RDict ((section_name, keys) # rest)) missing =
     (if \<not> truthy (secrets_get m section_name) then Inr (missing @ [section_ident section_name])
      else check_keys m section_name keys missing)"
| "check_section m ROther missing = Inr missing"

fun check_sections :: "(string \<times> pyval) list \<Rightarrow> required list \<Rightarrow> string list \<Rightarrow> py_error + string list" where
  "check_sections m [] missing = Inr missing"
| "check_sections m (section # sections) missing =
     (case check_section m section missing of
        Inl e \<Rightarrow> Inl e
      | Inr missing' \<Rightarrow> check_sections m sections missing')"

definition check_secrets_available :: "secret_source \<Rightarrow> required list \<Rightarrow> py_error + (bool \<times> string list)" where
  "check_secrets_available secrets required_sections =
     (case secrets of
        Unavailable \<Rightarrow> Inr (False, [''Streamlit Secrets configuration''])
      | Source m \<Rightarrow>
          (case check_sections m required_sections [] of
             Inl e \<Rightarrow> Inl e
           | Inr missing \<Rightarrow> if missing \<noteq> [] then Inr (False, missing) else Inr (True, [])))"

section \<open>Session state, external capabilities and user input\<close>

datatype user = User (user_name: string)

text \<open>
  The SDK's authorization objects: \<open>OAuth2(client_id, client_secret, access_token=...)\<close> and the
  object \<open>JWTAuth.from_settings_dictionary\<close> builds; \<open>Client(auth)\<close> wraps one of them.
\<close>

datatype auth = OAuth2 pyval pyval "pyval option" | JWTAuth pyval

datatype client = Client auth

text \<open>
  \<open>st.session_state\<close>, one field per key the module uses. \<open>None\<close> is a key that is absent or
  holds Python's \<open>None\<close>: the module reads \<open>authenticated\<close>, \<open>client\<close> and \<open>csrf_token\<close> only
  through \<open>.get\<close>, which does not tell the two apart, and tests \<open>auth_credentials\<close> with
  \<open>in\<close>, where it is never assigned \<open>None\<close>.
\<close>

record session_state =
  authenticated :: "bool option"
  client :: "client option"
  user :: "user option"
  csrf_token :: "string option"
  oauth :: "auth option"
  access_token :: "string option"
  refresh_token :: "string option"
  auth_credentials :: "(string \<rightharpoonup> pyval) option"

definition initial_session :: session_state where
  "initial_session =
     \<lparr>authenticated = None, client = None, user = None, csrf_token = None, oauth = None,
      access_token = None, refresh_token = None, auth_credentials = None\<rparr>"

text \<open>
  What the module calls outside the repository, taken as parameters: the SDK's
  \<open>oauth.get_authorization_url(redirect_uri)\<close> (authorization URL and CSRF token), the remote
  token exchange behind \<open>oauth.authenticate(auth_code)\<close>, \<open>client.user().get()\<close>,
  \<open>JWTAuth.from_settings_dictionary\<close>, and \<open>parse_qs(urlparse(url).query)\<close> (a dict from
  parameter names to lists of values). Each may raise.
\<close>

record env =
  get_authorization_url :: "pyval \<Rightarrow> py_error + (string \<times> string)"
  exchange_code :: "string \<Rightarrow> py_error + (string \<times> string option)"
  get_current_user :: "client \<Rightarrow> py_error + user"
  from_settings_dictionary :: "pyval \<Rightarrow> py_error + auth"
  parse_query :: "string \<Rightarrow> py_error + (string \<times> string list) list"

datatype auth_method = OAuth_2_0 | JWT | Developer_Token

text \<open>The widgets of one script run: the radio, the text input and the four buttons.\<close>

record ui =
  logout_button :: bool
  auth_method_radio :: auth_method
  open_link_button :: bool
  auth_code_url :: string
  jwt_button :: bool
  developer_token_button :: bool

text \<open>
  The messages of \<open>st.error\<close>, by the place that shows them:
  \<^item> \<open>ConfigurationIncomplete\<close>: "Missing required secrets: ..." (line 47) or "Streamlit Secrets
    not available" (line 19);
  \<^item> \<open>AntiForgeryMismatch\<close>: "CSRF token mismatch. Authentication failed." (line 181);
  \<^item> \<open>MalformedCallback\<close>: "Could not find authorization code ..." (line 205);
  \<^item> \<open>CallbackProcessingFailed\<close>: "Error processing authorization code: ..." (line 207);
  \<^item> \<open>OAuthInitializationFailed\<close>: line 211; \<open>JwtStructureInvalid\<close>: line 232;
  \<^item> \<open>JwtAuthenticationFailed\<close>: line 266; \<open>DeveloperTokenAuthenticationFailed\<close>: line 319.
\<close>

datatype auth_error =
    ConfigurationIncomplete "string list"
  | AntiForgeryMismatch
  | MalformedCallback
  | CallbackProcessingFailed py_error
  | OAuthInitializationFailed py_error
  | JwtStructureInvalid
  | JwtAuthenticationFailed py_error
  | DeveloperTokenAuthenticationFailed py_error

text \<open>
  What a run does besides changing the session, in order: messages shown, calls of the
  external capabilities, \<open>st.rerun()\<close>, and an exception that leaves the function.
\<close>

datatype event =
    ShowError auth_error
  | ShowSuccess string
  | AlreadyAuthenticated string
  | ShowLink string
  | OpenBrowser string
  | ExchangeCode string
  | GetCurrentUser
  | SignAssertion
  | Rerun
  | Uncaught py_error

text \<open>\<open>st.secrets[name]\<close>\<close>

definition secrets_getitem :: "secret_source \<Rightarrow> string \<Rightarrow> py_error + pyval" where
  "secrets_getitem secrets section_name =
     (case secrets of
        Unavailable \<Rightarrow> Inl TypeError
      | Source m \<Rightarrow> (case map_of m section_name of None \<Rightarrow> Inl KeyError | Some v \<Rightarrow> Inr v))"

text \<open>\<open>v.get(k, default)\<close>: only a dict has the method.\<close>

fun py_dict_get :: "pyval \<Rightarrow> string \<Rightarrow> pyval \<Rightarrow> py_error + pyval" where
  "py_dict_get (VDict d) k dflt = Inr (case map_of d k of None \<Rightarrow> dflt | Some v \<Rightarrow> v)"
| "py_dict_get v k dflt = Inl AttributeError"

text \<open>\<open>st.secrets[section][key]\<close>\<close>

definition secret_value :: "secret_source \<Rightarrow> string \<Rightarrow> string \<Rightarrow> py_error + pyval" where
  "secret_value secrets section_name key =
     (case secrets_getitem secrets section_name of
        Inl e \<Rightarrow> Inl e
      | Inr section \<Rightarrow> py_getitem section key)"

text \<open>
  The dict \<open>st.session_state.auth_credentials\<close> after
  \<open>if "auth_credentials" not in st.session_state: st.session_state.auth_credentials = {}\<close>.
\<close>

definition current_credentials :: "session_state \<Rightarrow> (string \<rightharpoonup> pyval)" where
  "current_credentials s = (case auth_credentials s of None \<Rightarrow> Map.empty | Some c \<Rightarrow> c)"

section \<open>store_tokens\<close>

text \<open>
  Lines 342, 343 (and 347, 348): the two assignments into \<open>auth_credentials\<close>. The result is
  the dict as the assignments left it and the exception that stopped them, if any.
\<close>

definition capture_section :: "secret_source \<Rightarrow> string \<Rightarrow> (string \<rightharpoonup> pyval) \<Rightarrow> (string \<rightharpoonup> pyval) \<times> py_error option" where
  "capture_section secrets section_name creds =
     (case secret_value secrets section_name ''client_id'' of
        Inl e \<Rightarrow> (creds, Some e)
      | Inr client_id \<Rightarrow>
          (case secret_value secrets section_name ''client_secret'' of
             Inl e \<Rightarrow> (creds(''client_id'' \<mapsto> client_id), Some e)
           | Inr client_secret \<Rightarrow>
               (creds(''client_id'' \<mapsto> client_id, ''client_secret'' \<mapsto> client_secret), None)))"

text \<open>Lines 339 to 351, the body of the \<open>try\<close>.\<close>

definition capture_client_credentials :: "secret_source \<Rightarrow> (string \<rightharpoonup> pyval) \<Rightarrow> (string \<rightharpoonup> pyval) \<times> py_error option" where
  "capture_client_credentials secrets creds =
     (case secrets of
        Unavailable \<Rightarrow> (creds, Some AttributeError)
      | Source m \<Rightarrow>
          if truthy (secrets_get m ''box_oauth'') then capture_section secrets ''box_oauth'' creds
          else if truthy (secrets_get m ''box_dev'') then capture_section secrets ''box_dev'' creds
          else (creds, None))"

text \<open>\<open>if refresh_token:\<close> on an optional string.\<close>

fun truthy_token :: "string option \<Rightarrow> bool" where
  "truthy_token None = False"
| "truthy_token (Some t) = (t \<noteq> [])"

text \<open>
  The callback: the new session, the pair it returns, and the exception that
  \<open>except Exception\<close> (line 352) caught and logged, if any.
\<close>

definition store_tokens ::
  "secret_source \<Rightarrow> session_state \<Rightarrow> string \<Rightarrow> string option \<Rightarrow>
   session_state \<times> (string \<times> string option) \<times> py_error option" where
  "store_tokens secrets s access refresh =
     (let s1 = s\<lparr>access_token := Some access\<rparr>;
          s2 = (if truthy_token refresh then s1\<lparr>refresh_token := refresh\<rparr> else s1);
          (creds, logged) = capture_client_credentials secrets (current_credentials s2);
          creds1 = creds(''access_token'' \<mapsto> VStr access);
          creds2 = (case refresh of
                      Some t \<Rightarrow> if t \<noteq> [] then creds1(''refresh_token'' \<mapsto> VStr t) else creds1
                    | None \<Rightarrow> creds1)
      in (s2\<lparr>auth_credentials := Some creds2\<rparr>, (access, refresh), logged))"

section \<open>The three strategies\<close>

text \<open>
  \<open>oauth.authenticate(auth_code)\<close>: the remote exchange, and on success the SDK's call of the
  \<open>store_tokens\<close> callback the object was built with (line 147; line 199: "store_tokens
  callback already stored credentials").
\<close>

definition oauth_authenticate ::
  "env \<Rightarrow> secret_source \<Rightarrow> string \<Rightarrow> session_state \<Rightarrow> session_state \<times> (py_error + (string \<times> string option))" where
  "oauth_authenticate e secrets auth_code s =
     (case exchange_code e auth_code of
        Inl err \<Rightarrow> (s, Inl err)
      | Inr (access, refresh) \<Rightarrow>
          (case store_tokens secrets s access refresh of
             (s', tokens, logged) \<Rightarrow> (s', Inr tokens)))"

text \<open>\<open>query_params.get('state', [None])[0]\<close>\<close>

definition first_state :: "(string \<times> string list) list \<Rightarrow> py_error + string option" where
  "first_state query_params =
     (case map_of query_params ''state'' of
        None \<Rightarrow> Inr None
      | Some [] \<Rightarrow> Inl IndexError
      | Some (v # vs) \<Rightarrow> Inr (Some v))"

text \<open>
  Lines 170 to 208: the processing of a pasted redirect URL, inside its own \<open>try\<close>; every
  exception ends in the message of line 207.
\<close>

definition oauth_callback ::
  "env \<Rightarrow> secret_source \<Rightarrow> auth \<Rightarrow> string \<Rightarrow> session_state \<Rightarrow> session_state \<times> event list" where
  "oauth_callback e secrets oauth_obj url s =
     (case parse_query e url of
        Inl err \<Rightarrow> (s, [ShowError (CallbackProcessingFailed err)])
      | Inr query_params \<Rightarrow>
          (case map_of query_params ''code'' of
             None \<Rightarrow> (s, [ShowError MalformedCallback])
           | Some [] \<Rightarrow> (s, [ShowError (CallbackProcessingFailed IndexError)])
           | Some (auth_code # codes) \<Rightarrow>
               (case first_state query_params of
                  Inl err \<Rightarrow> (s, [ShowError (CallbackProcessingFailed err)])
                | Inr state \<Rightarrow>
                    if \<not> truthy_token state \<or> state \<noteq> csrf_token s then
                      (s, [ShowError AntiForgeryMismatch])
                    else
                      (case oauth_authenticate e secrets auth_code s of
                         (s1, Inl err) \<Rightarrow>
                           (s1, [ExchangeCode auth_code, ShowError (CallbackProcessingFailed err)])
                       | (s1, Inr tokens) \<Rightarrow>
                           (case get_current_user e (Client oauth_obj) of
                              Inl err \<Rightarrow>
                                (s1, [ExchangeCode auth_code, GetCurrentUser,
                                      ShowError (CallbackProcessingFailed err)])
                            | Inr current_user \<Rightarrow>
                                (s1\<lparr>authenticated := Some True,
                                    client := Some (Client oauth_obj),
                                    user := Some current_user\<rparr>,
                                 [ExchangeCode auth_code, GetCurrentUser,
                                  ShowSuccess (user_name current_user), Rerun]))))))"

text \<open>Lines 137 to 140: client id, client secret and redirect URI.\<close>

definition oauth_settings :: "secret_source \<Rightarrow> py_error + (pyval \<times> pyval \<times> pyval)" where
  "oauth_settings secrets =
     (case secret_value secrets ''box_oauth'' ''client_id'' of
        Inl e \<Rightarrow> Inl e
      | Inr client_id \<Rightarrow>
          (case secret_value secrets ''box_oauth'' ''client_secret'' of
             Inl e \<Rightarrow> Inl e
           | Inr client_secret \<Rightarrow>
               (case secrets of
                  Unavailable \<Rightarrow> Inl AttributeError
                | Source m \<Rightarrow>
                    (case py_dict_get (case map_of m ''box_oauth'' of None \<Rightarrow> VDict [] | Some v \<Rightarrow> v)
                            ''redirect_uri'' (VStr ''http://localhost:8501/'') of
                       Inl e \<Rightarrow> Inl e
                     | Inr redirect_uri \<Rightarrow> Inr (client_id, client_secret, redirect_uri)))))"

text \<open>
  Lines 133 to 151: the secrets gate and the new authorization URL. The result is the
  \<open>OAuth2\<close> object, the URL and the CSRF token, or what ends the run before them: the message
  shown, or an exception that nothing catches.
\<close>

definition begin_authorization :: "env \<Rightarrow> secret_source \<Rightarrow> event + (auth \<times> string \<times> string)" where
  "begin_authorization e secrets =
     (case check_secrets_available secrets [RDict [(''box_oauth'', [''client_id'', ''client_secret''])]] of
        Inl err \<Rightarrow> Inl (Uncaught err)
      | Inr (secrets_ok, missing) \<Rightarrow>
          if \<not> secrets_ok then Inl (ShowError (ConfigurationIncomplete missing))
          else
            (case oauth_settings secrets of
               Inl err \<Rightarrow> Inl (Uncaught err)
             | Inr (client_id, client_secret, redirect_uri) \<Rightarrow>
                 (case get_authorization_url e redirect_uri of
                    Inl err \<Rightarrow> Inl (ShowError (OAuthInitializationFailed err))
                  | Inr (auth_url, token) \<Rightarrow>
                      Inr (OAuth2 client_id client_secret None, auth_url, token))))"

text \<open>
  One run of \<open>oauth2_authentication_secrets\<close>: the CSRF token of the new authorization URL
  replaces the stored one (line 154), and, when the text input is not empty, the callback
  is processed.
\<close>

definition oauth2_authentication_secrets ::
  "env \<Rightarrow> ui \<Rightarrow> secret_source \<Rightarrow> session_state \<Rightarrow> session_state \<times> event list" where
  "oauth2_authentication_secrets e inp secrets s =
     (case begin_authorization e secrets of
        Inl ev \<Rightarrow> (s, [ev])
      | Inr (oauth_obj, auth_url, token) \<Rightarrow>
          (let s1 = s\<lparr>csrf_token := Some token, oauth := Some oauth_obj\<rparr>;
               shown = ShowLink auth_url #
                       (if open_link_button inp then [OpenBrowser auth_url] else [])
           in if auth_code_url inp \<noteq> [] then
                (case oauth_callback e secrets oauth_obj (auth_code_url inp) s1 of
                   (s2, events) \<Rightarrow> (s2, shown @ events))
              else (s1, shown)))"

text \<open>
  Line 231: the shape test on the \<open>box_jwt\<close> section; \<open>or\<close> short-circuits. The section is
  already a plain value here, so \<open>to_dict\<close> (line 230) changes nothing.
\<close>

fun jwt_structure_ok :: "pyval \<Rightarrow> bool" where
  "jwt_structure_ok (VDict d) = (map_of d ''boxAppSettings'' \<noteq> None \<and> map_of d ''enterpriseID'' \<noteq> None)"
| "jwt_structure_ok v = False"

definition jwt_authentication_secrets ::
  "env \<Rightarrow> ui \<Rightarrow> secret_source \<Rightarrow> session_state \<Rightarrow> session_state \<times> event list" where
  "jwt_authentication_secrets e inp secrets s =
     (case check_secrets_available secrets [RStr ''box_jwt''] of
        Inl err \<Rightarrow> (s, [Uncaught err])
      | Inr (secrets_ok, missing) \<Rightarrow>
          if \<not> secrets_ok then (s, [ShowError (ConfigurationIncomplete missing)])
          else
            (case secrets_getitem secrets ''box_jwt'' of
               Inl err \<Rightarrow> (s, [Uncaught err])
             | Inr config_dict \<Rightarrow>
                 if \<not> jwt_structure_ok config_dict then (s, [ShowError JwtStructureInvalid])
                 else if jwt_button inp then
                   (case from_settings_dictionary e config_dict of
                      Inl err \<Rightarrow> (s, [SignAssertion, ShowError (JwtAuthenticationFailed err)])
                    | Inr auth_obj \<Rightarrow>
                        (case get_current_user e (Client auth_obj) of
                           Inl err \<Rightarrow>
                             (s, [SignAssertion, GetCurrentUser, ShowError (JwtAuthenticationFailed err)])
                         | Inr service_account \<Rightarrow>
                             (s\<lparr>authenticated := Some True,
                                client := Some (Client auth_obj),
                                user := Some service_account,
                                auth_credentials :=
                                  Some ((current_credentials s)(''jwt_config'' \<mapsto> config_dict))\<rparr>,
                              [SignAssertion, GetCurrentUser,
                               ShowSuccess (user_name service_account), Rerun])))
                 else (s, [])))"

text \<open>
  Lines 281 to 283. The \<open>OAuth2\<close> object of line 289 is given the \<open>store_tokens\<close> callback, which
  the SDK calls when it obtains tokens; building the object from a developer token obtains
  none, and the run stores the credentials itself (lines 308 to 312).
\<close>

definition developer_settings :: "secret_source \<Rightarrow> py_error + (pyval \<times> pyval \<times> pyval)" where
  "developer_settings secrets =
     (case secret_value secrets ''box_dev'' ''client_id'' of
        Inl e \<Rightarrow> Inl e
      | Inr client_id \<Rightarrow>
          (case secret_value secrets ''box_dev'' ''client_secret'' of
             Inl e \<Rightarrow> Inl e
           | Inr client_secret \<Rightarrow>
               (case secret_value secrets ''box_dev'' ''developer_token'' of
                  Inl e \<Rightarrow> Inl e
                | Inr developer_token \<Rightarrow> Inr (client_id, client_secret, developer_token))))"

definition developer_token_authentication_secrets ::
  "env \<Rightarrow> ui \<Rightarrow> secret_source \<Rightarrow> session_state \<Rightarrow> session_state \<times> event list" where
  "developer_token_authentication_secrets e inp secrets s =
     (case check_secrets_available secrets
             [RDict [(''box_dev'', [''client_id'', ''client_secret'', ''developer_token''])]] of
        Inl err \<Rightarrow> (s, [Uncaught err])
      | Inr (secrets_ok, missing) \<Rightarrow>
          if \<not> secrets_ok then (s, [ShowError (ConfigurationIncomplete missing)])
          else
            (case developer_settings secrets of
               Inl err \<Rightarrow> (s, [Uncaught err])
             | Inr (client_id, client_secret, developer_token) \<Rightarrow>
                 if developer_token_button inp then
                   (let auth_obj = OAuth2 client_id client_secret (Some developer_token) in
                    case get_current_user e (Client auth_obj) of
                      Inl err \<Rightarrow>
                        (s, [GetCurrentUser, ShowError (DeveloperTokenAuthenticationFailed err)])
                    | Inr current_user \<Rightarrow>
                        (s\<lparr>authenticated := Some True,
                           client := Some (Client auth_obj),
                           user := Some current_user,
                           auth_credentials :=
                             Some ((current_credentials s)
                                     (''client_id'' \<mapsto> client_id,
                                      ''client_secret'' \<mapsto> client_secret,
                                      ''access_token'' \<mapsto> developer_token))\<rparr>,
                         [GetCurrentUser, ShowSuccess (user_name current_user), Rerun]))
                 else (s, [])))"

section \<open>authenticate\<close>

text \<open>Lines 85 to 90: the dispatch on the radio.\<close>

definition run_strategy ::
  "auth_method \<Rightarrow> env \<Rightarrow> ui \<Rightarrow> secret_source \<Rightarrow> session_state \<Rightarrow> session_state \<times> event list" where
  "run_strategy chosen e inp secrets s =
     (case chosen of
        OAuth_2_0 \<Rightarrow> oauth2_authentication_secrets e inp secrets s
      | JWT \<Rightarrow> jwt_authentication_secrets e inp secrets s
      | Developer_Token \<Rightarrow> developer_token_authentication_secrets e inp secrets s)"

text \<open>Lines 61 to 65: what the Logout button does to the session.\<close>

definition logout :: "session_state \<Rightarrow> session_state" where
  "logout s = s\<lparr>authenticated := Some False, client := None, user := None, auth_credentials := None\<rparr>"

text \<open>
  One script run. \<open>st.session_state.user.name\<close> (line 59) raises when there is no user.
\<close>

definition authenticate ::
  "env \<Rightarrow> ui \<Rightarrow> secret_source \<Rightarrow> session_state \<Rightarrow> session_state \<times> event list" where
  "authenticate e inp secrets s =
     (if authenticated s = Some True \<and> client s \<noteq> None then
        (case user s of
           None \<Rightarrow> (s, [Uncaught AttributeError])
         | Some u \<Rightarrow>
             if logout_button inp then (logout s, [AlreadyAuthenticated (user_name u), Rerun])
             else (s, [AlreadyAuthenticated (user_name u)]))
      else run_strategy (auth_method_radio inp) e inp secrets s)"

section \<open>Properties stated over the model\<close>

text \<open>
  Resolving a path by walking a mapping level by level: each part must be a key of the
  dict reached so far.
\<close>

fun resolve :: "pyval \<Rightarrow> string list \<Rightarrow> pyval option" where
  "resolve v [] = Some v"
| "resolve v (p # ps) =
     (case v of
        VDict d \<Rightarrow> (case map_of d p of None \<Rightarrow> None | Some v' \<Rightarrow> resolve v' ps)
      | _ \<Rightarrow> None)"

text \<open>
  The identifiers the specification asks for: an entry's section when the section is absent
  from the secret mapping, and otherwise each of its key paths that does not resolve.
\<close>

fun spec_unresolved :: "(string \<times> pyval) list \<Rightarrow> required \<Rightarrow> string list" where
  "spec_unresolved m (RStr section) = (if resolve (VDict m) [section] = None then [section] else [])"
| "spec_unresolved m (RDict []) = []"
| "spec_unresolved m (RDict ((section_name, keys) # rest)) =
     (if resolve (VDict m) [section_name] = None then [section_ident section_name]
      else map (key_ident section_name)
             (filter (\<lambda>key. resolve (VDict m) (section_name # split_dot key) = None) keys))"
| "spec_unresolved m ROther = []"

text \<open>The same, with a section counted as unresolved when its value is absent or falsy.\<close>

fun unresolved :: "(string \<times> pyval) list \<Rightarrow> required \<Rightarrow> string list" where
  "unresolved m (RStr section) = (if \<not> truthy (secrets_get m section) then [section] else [])"
| "unresolved m (RDict []) = []"
| "unresolved m (RDict ((section_name, keys) # rest)) =
     (if \<not> truthy (secrets_get m section_name) then [section_ident section_name]
      else map (key_ident section_name)
             (filter (\<lambda>key. resolve (secrets_get m section_name) (split_dot key) = None) keys))"
| "unresolved m ROther = []"

text \<open>
  The validator agrees with a notion \<open>ids\<close> of unresolved identifiers: it returns, \<open>ok\<close> is false
  exactly when some entry has an unresolved identifier, and the missing list holds the
  same identifiers as a set.
\<close>

definition validate_agrees ::
  "((string \<times> pyval) list \<Rightarrow> required \<Rightarrow> string list) \<Rightarrow> (string \<times> pyval) list \<Rightarrow> required list \<Rightarrow> bool" where
  "validate_agrees ids m required_sections =
     (case check_secrets_available (Source m) required_sections of
        Inl e \<Rightarrow> False
      | Inr (ok, missing) \<Rightarrow>
          (ok = False \<longleftrightarrow> (\<exists>r \<in> set required_sections. ids m r \<noteq> [])) \<and>
          set missing = (\<Union>r \<in> set required_sections. set (ids m r)))"

text \<open>
  Token material in the session: the access token \<open>store_tokens\<close> keeps, or an access token or
  signed-assertion configuration under \<open>auth_credentials\<close>.
\<close>

definition has_token_material :: "session_state \<Rightarrow> bool" where
  "has_token_material s =
     (access_token s \<noteq> None \<or>
      (case auth_credentials s of
         None \<Rightarrow> False
       | Some c \<Rightarrow> c ''access_token'' \<noteq> None \<or> c ''jwt_config'' \<noteq> None))"

text \<open>The sessions script runs can produce, whatever the capabilities, input and secrets.\<close>

inductive reachable :: "session_state \<Rightarrow> bool" where
  reachable_initial: "reachable initial_session"
| reachable_run: "reachable s \<Longrightarrow> reachable (fst (authenticate e inp secrets s))"

section \<open>Concrete inputs\<close>

text \<open>What \<open>parse_qs(urlparse(url).query)\<close> returns on the URLs used below.\<close>

definition example_parse_query :: "string \<Rightarrow> py_error + (string \<times> string list) list" where
  "example_parse_query url =
     (if url = ''https://x/?code=ABC&state=T1'' then Inr [(''code'', [''ABC'']), (''state'', [''T1''])]
      else if url = ''https://x/?code=ABC&state=WRONG'' then Inr [(''code'', [''ABC'']), (''state'', [''WRONG''])]
      else if url = ''https://x/?code=ABC'' then Inr [(''code'', [''ABC''])]
      else if url = ''https://x/?state=WRONG'' then Inr [(''state'', [''WRONG''])]
      else if url = ''https://x/?state=T1'' then Inr [(''state'', [''T1''])]
      else Inr [])"

text \<open>
  Capabilities that issue the CSRF token \<open>token\<close>, exchange any code for the tokens \<open>AT1\<close> and
  \<open>RT1\<close>, and answer the identity request with Alice or, when \<open>user_ok\<close> is false, with an error.
\<close>

definition example_env :: "string \<Rightarrow> bool \<Rightarrow> env" where
  "example_env token user_ok =
     \<lparr>get_authorization_url = (\<lambda>redirect_uri. Inr (''https://auth/?state='' @ token, token)),
      exchange_code = (\<lambda>code. Inr (''AT1'', Some ''RT1'')),
      get_current_user = (\<lambda>c. if user_ok then Inr (User ''Alice'') else Inl (SdkError ''401'')),
      from_settings_dictionary = (\<lambda>config. Inr (JWTAuth config)),
      parse_query = example_parse_query\<rparr>"

definition example_secrets :: secret_source where
  "example_secrets =
     Source [(''box_oauth'', VDict [(''client_id'', VStr ''c1''), (''client_secret'', VStr ''s1'')]),
             (''box_jwt'', VDict [(''boxAppSettings'', VDict []), (''enterpriseID'', VStr ''E1'')])]"

definition example_ui :: "auth_method \<Rightarrow> string \<Rightarrow> bool \<Rightarrow> ui" where
  "example_ui chosen url pressed =
     \<lparr>logout_button = pressed, auth_method_radio = chosen, open_link_button = False,
      auth_code_url = url, jwt_button = pressed, developer_token_button = pressed\<rparr>"

definition example_oauth :: auth where
  "example_oauth = OAuth2 (VStr ''c1'') (VStr ''s1'') None"

text \<open>The session after an authorization URL with token \<open>T1\<close> was issued.\<close>

definition pending_session :: session_state where
  "pending_session = initial_session\<lparr>csrf_token := Some ''T1'', oauth := Some example_oauth\<rparr>"

text \<open>The session after the callback carrying a code and the state \<open>T1\<close> succeeded on it.\<close>

definition authenticated_session :: session_state where
  "authenticated_session =
     fst (oauth_callback (example_env ''T1'' True) example_secrets example_oauth
            ''https://x/?code=ABC&state=T1'' pending_session)"

section \<open>The validator finds exactly the unresolved identifiers\<close>

lemma walk_parts_resolve:
  "walk_parts n k v ps missing =
     Inr (if resolve v ps = None then missing @ [key_ident n k] else missing)"
  by (induction ps arbitrary: v) (auto split: pyval.splits option.splits)

lemma check_keys_unresolved:
  "check_keys m n ks missing =
     Inr (missing @ map (key_ident n) (filter (\<lambda>k. resolve (secrets_get m n) (split_dot k) = None) ks))"
  by (induction ks arbitrary: missing) (auto simp: walk_parts_resolve)

lemma check_section_unresolved:
  "r \<noteq> RDict [] \<Longrightarrow> check_section m r missing = Inr (missing @ unresolved m r)"
  by (cases "(m, r, missing)" rule: check_section.cases) (auto simp: check_keys_unresolved)

lemma check_sections_unresolved:
  "\<forall>r \<in> set rs. r \<noteq> RDict [] \<Longrightarrow>
   check_sections m rs missing = Inr (missing @ concat (map (unresolved m) rs))"
  by (induction rs arbitrary: missing) (auto simp: check_section_unresolved)

text \<open>
  C3, as stated, fails: with the secrets \<open>{"box_jwt": {}}\<close> (a \<open>[box_jwt]\<close> table with nothing
  under it) and the requirement \<open>["box_jwt"]\<close>, the path \<open>box_jwt\<close> resolves in the mapping, yet
  the validator answers \<open>(False, ["box_jwt"])\<close>: line 24 tests the truth value of the section,
  not its presence.
\<close>

theorem empty_section_counterexample:
  "\<not> validate_agrees spec_unresolved [(''box_jwt'', VDict [])] [RStr ''box_jwt'']"
  by (simp add: validate_agrees_def check_secrets_available_def secrets_get_def)

text \<open>
  C3, amended: for every secret mapping and every list of requirements whose dict entries
  name a section, the validator returns; \<open>ok\<close> is false if and only if some required section
  is absent or falsy, or some key path of a required section that is present and truthy
  cannot be resolved by walking the mapping; and the missing list equals, as a set, the
  identifiers of exactly those sections and key paths.
\<close>

theorem validate_agrees_unresolved:
  assumes "\<forall>r \<in> set required_sections. r \<noteq> RDict []"
  shows "validate_agrees unresolved m required_sections"
  using assms
  by (auto simp: validate_agrees_def check_secrets_available_def check_sections_unresolved)

text \<open>The amended C3 at a source that lacks a key and holds an empty section.\<close>

theorem validate_agrees_unresolved_witness:
  "validate_agrees unresolved [(''box_dev'', VDict [(''client_id'', VStr ''c1'')]), (''box_jwt'', VDict [])]
     [RDict [(''box_dev'', [''client_id'', ''developer_token''])], RStr ''box_jwt'']"
proof -
  have h: "\<forall>r \<in> set [RDict [(''box_dev'', [''client_id'', ''developer_token''])], RStr ''box_jwt'']. r \<noteq> RDict []"
    by simp
  show ?thesis
    using h validate_agrees_unresolved [OF h, of "[(''box_dev'', VDict [(''client_id'', VStr ''c1'')]), (''box_jwt'', VDict [])]"]
    by simp
qed



section \<open>The delegated-authorization callback\<close>

lemma oauth_authenticate_eq:
  "oauth_authenticate e secrets code s =
     (case exchange_code e code of
        Inl err \<Rightarrow> (s, Inl err)
      | Inr (access, refresh) \<Rightarrow> (fst (store_tokens secrets s access refresh), Inr (access, refresh)))"
  by (auto simp: oauth_authenticate_def store_tokens_def Let_def split: sum.splits prod.splits)

lemma fst_store_tokens_fields:
  "authenticated (fst (store_tokens secrets s a r)) = authenticated s"
  "client (fst (store_tokens secrets s a r)) = client s"
  "user (fst (store_tokens secrets s a r)) = user s"
  "csrf_token (fst (store_tokens secrets s a r)) = csrf_token s"
  "oauth (fst (store_tokens secrets s a r)) = oauth s"
  "access_token (fst (store_tokens secrets s a r)) = Some a"
  by (auto simp: store_tokens_def Let_def split: prod.splits)

lemma oauth_callback_failed:
  assumes "oauth_callback e secrets oa url s = (s', evs)" and "ShowError err \<in> set evs"
  shows "authenticated s' = authenticated s \<and> client s' = client s \<and> user s' = user s \<and>
         csrf_token s' = csrf_token s \<and> oauth s' = oauth s \<and>
         (GetCurrentUser \<notin> set evs \<longrightarrow> s' = s) \<and>
         (GetCurrentUser \<in> set evs \<longrightarrow>
            (\<exists>access refresh. s' = fst (store_tokens secrets s access refresh)))"
  using assms
  by (auto simp: oauth_callback_def oauth_authenticate_eq fst_store_tokens_fields
           split: sum.splits option.splits list.splits if_splits prod.splits)

lemma oauth_callback_success:
  assumes "oauth_callback e secrets oa url s = (s', evs)" and "Rerun \<in> set evs"
  shows "\<exists>access refresh u.
           s' = (fst (store_tokens secrets s access refresh))
                  \<lparr>authenticated := Some True, client := Some (Client oa), user := Some u\<rparr>"
  using assms
  by (auto simp: oauth_callback_def oauth_authenticate_eq
           split: sum.splits option.splits list.splits if_splits prod.splits)

lemma begin_authorization_Inl:
  "begin_authorization e secrets = Inl ev \<Longrightarrow>
     (\<exists>err. ev = Uncaught err) \<or> (\<exists>missing. ev = ShowError (ConfigurationIncomplete missing)) \<or>
     (\<exists>err. ev = ShowError (OAuthInitializationFailed err))"
  by (auto simp: begin_authorization_def split: sum.splits prod.splits if_splits)

lemma begin_authorization_Inr:
  "begin_authorization e secrets = Inr (oa, auth_url, token) \<Longrightarrow>
     \<exists>redirect_uri. get_authorization_url e redirect_uri = Inr (auth_url, token)"
  by (auto simp: begin_authorization_def split: sum.splits prod.splits if_splits)

text \<open>
  C1, as stated, fails: a callback URL without a \<open>code\<close> parameter whose \<open>state\<close> differs from
  the pending token is answered with the message of line 205 (no authorization code), not
  with the CSRF mismatch: line 175 looks for the code before line 180 compares the state.
\<close>

theorem callback_without_code_counterexample:
  "parse_query (example_env ''T1'' True) ''https://x/?state=WRONG'' = Inr [(''state'', [''WRONG''])] \<and>
   csrf_token pending_session = Some ''T1'' \<and>
   oauth_callback (example_env ''T1'' True) example_secrets example_oauth ''https://x/?state=WRONG''
     pending_session = (pending_session, [ShowError MalformedCallback])"
  by (simp add: oauth_callback_def example_env_def example_parse_query_def pending_session_def)

text \<open>
  C1, amended: for every callback URL that carries a \<open>code\<close> parameter and whose \<open>state\<close>
  parameter is absent or differs from the pending token in the session, the callback
  reports the CSRF mismatch and nothing else: the token exchange is not invoked and the
  session is left as it was, so it is not marked authenticated.
\<close>

theorem csrf_mismatch_rejected:
  assumes "parse_query e url = Inr query_params"
    and "map_of query_params ''code'' = Some (auth_code # codes)"
    and "first_state query_params = Inr state"
    and "state = None \<or> state \<noteq> csrf_token s"
  shows "oauth_callback e secrets oauth_obj url s = (s, [ShowError AntiForgeryMismatch])"
  using assms by (auto simp: oauth_callback_def)

text \<open>The amended C1 at a callback with a code and the state \<open>WRONG\<close> while \<open>T1\<close> is pending.\<close>

theorem csrf_mismatch_rejected_witness:
  "oauth_callback (example_env ''T1'' True) example_secrets example_oauth
     ''https://x/?code=ABC&state=WRONG'' pending_session
   = (pending_session, [ShowError AntiForgeryMismatch])"
proof -
  have p: "parse_query (example_env ''T1'' True) ''https://x/?code=ABC&state=WRONG''
             = Inr [(''code'', [''ABC'']), (''state'', [''WRONG''])]"
    by (simp add: example_env_def example_parse_query_def)
  have c: "map_of [(''code'', [''ABC'']), (''state'', [''WRONG''])] ''code'' = Some (''ABC'' # [])"
    by simp
  have f: "first_state [(''code'', [''ABC'']), (''state'', [''WRONG''])] = Inr (Some ''WRONG'')"
    by (simp add: first_state_def)
  have m: "Some ''WRONG'' = None \<or> Some ''WRONG'' \<noteq> csrf_token pending_session"
    by (simp add: pending_session_def)
  show ?thesis
    using csrf_mismatch_rejected [OF p c f m] by simp
qed

section \<open>Runs of the strategies\<close>

lemmas example_defs =
  example_env_def example_parse_query_def example_secrets_def example_ui_def example_oauth_def
  pending_session_def initial_session_def

lemma oauth_run_Inl:
  "begin_authorization e secrets = Inl ev \<Longrightarrow>
   oauth2_authentication_secrets e inp secrets s = (s, [ev])"
  by (simp add: oauth2_authentication_secrets_def)

lemma oauth_run_Inr:
  "begin_authorization e secrets = Inr (oa, auth_url, token) \<Longrightarrow>
   oauth2_authentication_secrets e inp secrets s =
     (if auth_code_url inp \<noteq> [] then
        (fst (oauth_callback e secrets oa (auth_code_url inp) (s\<lparr>csrf_token := Some token, oauth := Some oa\<rparr>)),
         ShowLink auth_url # (if open_link_button inp then [OpenBrowser auth_url] else []) @
         snd (oauth_callback e secrets oa (auth_code_url inp) (s\<lparr>csrf_token := Some token, oauth := Some oa\<rparr>)))
      else (s\<lparr>csrf_token := Some token, oauth := Some oa\<rparr>,
            ShowLink auth_url # (if open_link_button inp then [OpenBrowser auth_url] else [])))"
  by (simp add: oauth2_authentication_secrets_def Let_def split: prod.splits)

lemma jwt_run_cases:
  assumes "jwt_authentication_secrets e inp secrets s = (s', evs)"
  shows "(s' = s \<and> Rerun \<notin> set evs) \<or>
         (\<exists>auth_obj u config.
            s' = s\<lparr>authenticated := Some True, client := Some (Client auth_obj), user := Some u,
                   auth_credentials := Some ((current_credentials s)(''jwt_config'' \<mapsto> config))\<rparr> \<and>
            (\<forall>err. ShowError err \<notin> set evs))"
  using assms
  by (auto simp: jwt_authentication_secrets_def split: sum.splits prod.splits if_splits; blast)

lemma developer_run_cases:
  assumes "developer_token_authentication_secrets e inp secrets s = (s', evs)"
  shows "(s' = s \<and> Rerun \<notin> set evs) \<or>
         (\<exists>auth_obj u client_id client_secret developer_token.
            s' = s\<lparr>authenticated := Some True, client := Some (Client auth_obj), user := Some u,
                   auth_credentials :=
                     Some ((current_credentials s)
                             (''client_id'' \<mapsto> client_id, ''client_secret'' \<mapsto> client_secret,
                              ''access_token'' \<mapsto> developer_token))\<rparr> \<and>
            (\<forall>err. ShowError err \<notin> set evs))"
  using assms
  by (auto simp: developer_token_authentication_secrets_def Let_def
           split: sum.splits prod.splits if_splits; blast)

lemma oauth_callback_cases:
  assumes "oauth_callback e secrets oa url s = (s', evs)"
  shows "(\<exists>err. ShowError err \<in> set evs) \<and> Rerun \<notin> set evs \<or>
         Rerun \<in> set evs \<and> (\<forall>err. ShowError err \<notin> set evs)"
  using assms
  by (auto simp: oauth_callback_def oauth_authenticate_eq
           split: sum.splits option.splits list.splits if_splits prod.splits)


lemma oauth_run_failed:
  assumes run: "oauth2_authentication_secrets e inp secrets s = (s', evs)"
    and err: "ShowError err \<in> set evs"
  shows "authenticated s' = authenticated s \<and> client s' = client s \<and> user s' = user s \<and>
         (GetCurrentUser \<notin> set evs \<longrightarrow>
            s' = s \<or>
            (\<exists>oa auth_url token. begin_authorization e secrets = Inr (oa, auth_url, token) \<and>
               s' = s\<lparr>csrf_token := Some token, oauth := Some oa\<rparr>)) \<and>
         (GetCurrentUser \<in> set evs \<longrightarrow>
            (\<exists>oa auth_url token access refresh.
               begin_authorization e secrets = Inr (oa, auth_url, token) \<and>
               s' = fst (store_tokens secrets (s\<lparr>csrf_token := Some token, oauth := Some oa\<rparr>)
                           access refresh)))"
proof (cases "begin_authorization e secrets")
  case (Inl ev)
  with run have "s' = s" "evs = [ev]" by (simp_all add: oauth_run_Inl)
  then show ?thesis using err begin_authorization_Inl [OF Inl] by auto
next
  case (Inr r)
  obtain oa auth_url token where r: "r = (oa, auth_url, token)" by (cases r) auto
  let ?s1 = "s\<lparr>csrf_token := Some token, oauth := Some oa\<rparr>"
  let ?cb = "oauth_callback e secrets oa (auth_code_url inp) ?s1"
  have b: "begin_authorization e secrets = Inr (oa, auth_url, token)" using Inr r by simp
  show ?thesis
  proof (cases "auth_code_url inp = []")
    case True
    with run b err show ?thesis by (auto simp: oauth_run_Inr split: if_splits)
  next
    case False
    with run b have s': "s' = fst ?cb" and evs: "set evs = insert (ShowLink auth_url)
        ((if open_link_button inp then {OpenBrowser auth_url} else {}) \<union> set (snd ?cb))"
      by (auto simp: oauth_run_Inr split: if_splits)
    have cb: "?cb = (s', snd ?cb)" using s' by simp
    from err evs have err': "ShowError err \<in> set (snd ?cb)" by (auto split: if_splits)
    have g: "GetCurrentUser \<in> set evs \<longleftrightarrow> GetCurrentUser \<in> set (snd ?cb)"
      using evs by (auto split: if_splits)
    from oauth_callback_failed [OF cb err'] b g show ?thesis by auto
  qed
qed

text \<open>
  C2, as stated, fails: when the token exchange succeeds and the identity request then
  fails, the \<open>store_tokens\<close> callback has already written the access token into the session,
  and nothing takes it back; the session is not as it was before the attempt.
\<close>

theorem identity_failure_keeps_tokens_counterexample:
  "snd (oauth_callback (example_env ''T1'' False) example_secrets example_oauth
          ''https://x/?code=ABC&state=T1'' pending_session)
     = [ExchangeCode ''ABC'', GetCurrentUser, ShowError (CallbackProcessingFailed (SdkError ''401''))] \<and>
   access_token pending_session = None \<and>
   access_token (fst (oauth_callback (example_env ''T1'' False) example_secrets example_oauth
          ''https://x/?code=ABC&state=T1'' pending_session)) = Some ''AT1''"
  by (simp add: oauth_callback_def oauth_authenticate_eq fst_store_tokens_fields first_state_def
        example_defs)

text \<open>
  C2, amended: in every attempt of any strategy that ends in an error message, the
  \<open>authenticated\<close> flag, the client and the user are unchanged. A failed attempt of the signed
  assertion or of the static token strategy leaves the whole session unchanged. A failed
  delegated attempt that did not reach the identity request leaves the session unchanged
  apart from the CSRF token and \<open>OAuth2\<close> object the run itself stored when it issued the
  authorization URL. When the exchange succeeded and the identity request failed, the
  session is what \<open>store_tokens\<close> made of that one: the token material stays recorded.
\<close>

theorem failed_attempt_effect:
  assumes "run_strategy chosen e inp secrets s = (s', evs)" and "ShowError err \<in> set evs"
  shows "authenticated s' = authenticated s \<and> client s' = client s \<and> user s' = user s \<and>
         (chosen \<noteq> OAuth_2_0 \<longrightarrow> s' = s) \<and>
         (GetCurrentUser \<notin> set evs \<longrightarrow>
            s' = s \<or>
            (\<exists>oa auth_url token. begin_authorization e secrets = Inr (oa, auth_url, token) \<and>
               s' = s\<lparr>csrf_token := Some token, oauth := Some oa\<rparr>)) \<and>
         (chosen = OAuth_2_0 \<and> GetCurrentUser \<in> set evs \<longrightarrow>
            (\<exists>oa auth_url token access refresh.
               begin_authorization e secrets = Inr (oa, auth_url, token) \<and>
               s' = fst (store_tokens secrets (s\<lparr>csrf_token := Some token, oauth := Some oa\<rparr>)
                           access refresh)))"
proof (cases chosen)
  case OAuth_2_0
  with assms have "oauth2_authentication_secrets e inp secrets s = (s', evs)"
    by (simp add: run_strategy_def)
  from oauth_run_failed [OF this assms(2)] OAuth_2_0 show ?thesis by simp
next
  case JWT
  with assms have "jwt_authentication_secrets e inp secrets s = (s', evs)"
    by (simp add: run_strategy_def)
  from jwt_run_cases [OF this] assms(2) JWT show ?thesis by auto
next
  case Developer_Token
  with assms have "developer_token_authentication_secrets e inp secrets s = (s', evs)"
    by (simp add: run_strategy_def)
  from developer_run_cases [OF this] assms(2) Developer_Token show ?thesis by auto
qed

lemma example_jwt_failed_run:
  "run_strategy JWT (example_env ''T1'' False) (example_ui JWT [] True) example_secrets initial_session
     = (initial_session,
        [SignAssertion, GetCurrentUser, ShowError (JwtAuthenticationFailed (SdkError ''401''))])"
  by (simp add: run_strategy_def jwt_authentication_secrets_def check_secrets_available_def
        secrets_get_def secrets_getitem_def example_defs)

text \<open>
  The amended C2 at a signed-assertion attempt whose identity request fails.
\<close>

theorem failed_attempt_effect_witness:
  "fst (run_strategy JWT (example_env ''T1'' False) (example_ui JWT [] True) example_secrets
          initial_session) = initial_session"
proof -
  have m: "ShowError (JwtAuthenticationFailed (SdkError ''401'')) \<in>
             set [SignAssertion, GetCurrentUser, ShowError (JwtAuthenticationFailed (SdkError ''401''))]"
    by simp
  show ?thesis
    using failed_attempt_effect [OF example_jwt_failed_run m] by (simp add: example_jwt_failed_run)
qed


lemma has_token_material_store_tokens:
  "has_token_material ((fst (store_tokens secrets s access refresh))\<lparr>authenticated := a, client := c, user := u\<rparr>)"
  by (simp add: has_token_material_def fst_store_tokens_fields)

lemma oauth_run_success:
  assumes run: "oauth2_authentication_secrets e inp secrets s = (s', evs)"
    and ok: "Rerun \<in> set evs"
  shows "\<exists>oa auth_url token access refresh u.
           begin_authorization e secrets = Inr (oa, auth_url, token) \<and>
           s' = (fst (store_tokens secrets (s\<lparr>csrf_token := Some token, oauth := Some oa\<rparr>)
                        access refresh))
                  \<lparr>authenticated := Some True, client := Some (Client oa), user := Some u\<rparr>"
proof (cases "begin_authorization e secrets")
  case (Inl ev)
  with run have "evs = [ev]" by (simp add: oauth_run_Inl)
  then show ?thesis using ok begin_authorization_Inl [OF Inl] by auto
next
  case (Inr r)
  obtain oa auth_url token where r: "r = (oa, auth_url, token)" by (cases r) auto
  let ?s1 = "s\<lparr>csrf_token := Some token, oauth := Some oa\<rparr>"
  let ?cb = "oauth_callback e secrets oa (auth_code_url inp) ?s1"
  have b: "begin_authorization e secrets = Inr (oa, auth_url, token)" using Inr r by simp
  show ?thesis
  proof (cases "auth_code_url inp = []")
    case True
    with run b ok show ?thesis by (auto simp: oauth_run_Inr split: if_splits)
  next
    case False
    with run b have s': "s' = fst ?cb" and evs: "set evs = insert (ShowLink auth_url)
        ((if open_link_button inp then {OpenBrowser auth_url} else {}) \<union> set (snd ?cb))"
      by (auto simp: oauth_run_Inr split: if_splits)
    have cb: "?cb = (s', snd ?cb)" using s' by simp
    from ok evs have ok': "Rerun \<in> set (snd ?cb)" by (auto split: if_splits)
    from oauth_callback_success [OF cb ok'] b show ?thesis by blast
  qed
qed

text \<open>
  C5, as stated, fails: after a successful delegated authorization the session is marked
  authenticated and still holds the CSRF token \<open>T1\<close>; lines 196 to 198 assign three keys and
  nothing in the module clears \<open>csrf_token\<close>.
\<close>

theorem commit_keeps_pending_token_counterexample:
  "snd (oauth_callback (example_env ''T1'' True) example_secrets example_oauth
          ''https://x/?code=ABC&state=T1'' pending_session)
     = [ExchangeCode ''ABC'', GetCurrentUser, ShowSuccess ''Alice'', Rerun] \<and>
   authenticated (fst (oauth_callback (example_env ''T1'' True) example_secrets example_oauth
          ''https://x/?code=ABC&state=T1'' pending_session)) = Some True \<and>
   csrf_token (fst (oauth_callback (example_env ''T1'' True) example_secrets example_oauth
          ''https://x/?code=ABC&state=T1'' pending_session)) = Some ''T1''"
  by (simp add: oauth_callback_def oauth_authenticate_eq fst_store_tokens_fields first_state_def
        example_defs)

text \<open>
  C5, amended: the successful completion of any strategy sets \<open>authenticated\<close> to true
  together with the client and the user, with token material present in the session, and
  does not clear the CSRF token. For the signed assertion and the static token strategies
  the only other change is the entry written under \<open>auth_credentials\<close>; for the delegated
  strategy the session is the one \<open>store_tokens\<close> produced from the session holding the
  token issued in this run, with the three keys set, and that token is still stored.
\<close>

theorem commit_effect:
  assumes "run_strategy chosen e inp secrets s = (s', evs)" and "Rerun \<in> set evs"
  shows "authenticated s' = Some True \<and> client s' \<noteq> None \<and> user s' \<noteq> None \<and>
         has_token_material s' \<and>
         (case chosen of
            OAuth_2_0 \<Rightarrow>
              (\<exists>oa auth_url token access refresh u.
                 begin_authorization e secrets = Inr (oa, auth_url, token) \<and>
                 csrf_token s' = Some token \<and>
                 s' = (fst (store_tokens secrets (s\<lparr>csrf_token := Some token, oauth := Some oa\<rparr>)
                              access refresh))
                        \<lparr>authenticated := Some True, client := Some (Client oa), user := Some u\<rparr>)
          | JWT \<Rightarrow>
              (\<exists>auth_obj u config.
                 s' = s\<lparr>authenticated := Some True, client := Some (Client auth_obj), user := Some u,
                        auth_credentials :=
                          Some ((current_credentials s)(''jwt_config'' \<mapsto> config))\<rparr>)
          | Developer_Token \<Rightarrow>
              (\<exists>auth_obj u client_id client_secret developer_token.
                 s' = s\<lparr>authenticated := Some True, client := Some (Client auth_obj), user := Some u,
                        auth_credentials :=
                          Some ((current_credentials s)
                                  (''client_id'' \<mapsto> client_id, ''client_secret'' \<mapsto> client_secret,
                                   ''access_token'' \<mapsto> developer_token))\<rparr>))"
proof (cases chosen)
  case OAuth_2_0
  with assms have "oauth2_authentication_secrets e inp secrets s = (s', evs)"
    by (simp add: run_strategy_def)
  from oauth_run_success [OF this assms(2)]
  obtain oa auth_url token access refresh u where
    b: "begin_authorization e secrets = Inr (oa, auth_url, token)" and
    s': "s' = (fst (store_tokens secrets (s\<lparr>csrf_token := Some token, oauth := Some oa\<rparr>) access refresh))
               \<lparr>authenticated := Some True, client := Some (Client oa), user := Some u\<rparr>"
    by blast
  have f: "authenticated s' = Some True" "client s' \<noteq> None" "user s' \<noteq> None"
          "has_token_material s'" "csrf_token s' = Some token"
    unfolding s' by (simp_all add: has_token_material_store_tokens fst_store_tokens_fields)
  from f b s' OAuth_2_0 show ?thesis by auto
next
  case JWT
  with assms have "jwt_authentication_secrets e inp secrets s = (s', evs)"
    by (simp add: run_strategy_def)
  from jwt_run_cases [OF this] assms(2) JWT show ?thesis
    by (auto simp: has_token_material_def)
next
  case Developer_Token
  with assms have "developer_token_authentication_secrets e inp secrets s = (s', evs)"
    by (simp add: run_strategy_def)
  from developer_run_cases [OF this] assms(2) Developer_Token show ?thesis
    by (auto simp: has_token_material_def)
qed

lemma example_jwt_success_run:
  "run_strategy JWT (example_env ''T1'' True) (example_ui JWT [] True) example_secrets initial_session
     = (initial_session
          \<lparr>authenticated := Some True,
           client := Some (Client (JWTAuth (VDict [(''boxAppSettings'', VDict []), (''enterpriseID'', VStr ''E1'')]))),
           user := Some (User ''Alice''),
           auth_credentials :=
             Some ((current_credentials initial_session)
                     (''jwt_config'' \<mapsto> VDict [(''boxAppSettings'', VDict []), (''enterpriseID'', VStr ''E1'')]))\<rparr>,
        [SignAssertion, GetCurrentUser, ShowSuccess ''Alice'', Rerun])"
  by (simp add: run_strategy_def jwt_authentication_secrets_def check_secrets_available_def
        secrets_get_def secrets_getitem_def example_defs)

text \<open>
  The amended C5 at a successful signed-assertion attempt.
\<close>

theorem commit_effect_witness:
  "authenticated (fst (run_strategy JWT (example_env ''T1'' True) (example_ui JWT [] True)
      example_secrets initial_session)) = Some True \<and>
   has_token_material (fst (run_strategy JWT (example_env ''T1'' True) (example_ui JWT [] True)
      example_secrets initial_session))"
proof -
  have m: "Rerun \<in> set [SignAssertion, GetCurrentUser, ShowSuccess ''Alice'', Rerun]"
    by simp
  show ?thesis
    using commit_effect [OF example_jwt_success_run m] by (simp add: example_jwt_success_run)
qed

lemma example_mismatch_callback:
  "oauth_callback (example_env ''T1'' True) example_secrets example_oauth
     ''https://x/?code=ABC&state=WRONG'' pending_session
     = (pending_session, [ShowError AntiForgeryMismatch])"
  by (simp add: oauth_callback_def first_state_def example_defs)

text \<open>
  C4, as stated, fails: with the token \<open>T1\<close> pending, a callback that carries a code and the
  state \<open>WRONG\<close> is answered with the CSRF mismatch, and the session afterwards is the one
  before it, with \<open>T1\<close> still stored: the branch of lines 180 to 183 shows the message and
  returns, and invalidates nothing.
\<close>

theorem mismatch_keeps_pending_token_counterexample:
  "snd (oauth_callback (example_env ''T1'' True) example_secrets example_oauth
          ''https://x/?code=ABC&state=WRONG'' pending_session)
     = [ShowError AntiForgeryMismatch] \<and>
   csrf_token pending_session = Some ''T1'' \<and>
   csrf_token (fst (oauth_callback (example_env ''T1'' True) example_secrets example_oauth
          ''https://x/?code=ABC&state=WRONG'' pending_session)) = Some ''T1''"
  by (simp add: oauth_callback_def first_state_def example_defs)

text \<open>
  C4, amended: whenever the processing of a callback detects a state mismatch, the attempt
  is rejected with that message alone and the token exchange is not invoked; the session,
  and with it the pending anti-forgery token, is left exactly as it was: the mismatch does
  not invalidate the token.
\<close>

theorem mismatch_leaves_pending_token:
  assumes "oauth_callback e secrets oauth_obj url s = (s', evs)"
    and "ShowError AntiForgeryMismatch \<in> set evs"
  shows "evs = [ShowError AntiForgeryMismatch] \<and> (\<forall>c. ExchangeCode c \<notin> set evs) \<and>
         s' = s \<and> csrf_token s' = csrf_token s"
proof -
  from assms have "evs = [ShowError AntiForgeryMismatch] \<and> s' = s"
    by (auto simp: oauth_callback_def oauth_authenticate_eq
             split: sum.splits option.splits list.splits if_splits prod.splits)
  then show ?thesis by simp
qed

text \<open>
  The amended C4 at a callback with a code and the state \<open>WRONG\<close> while \<open>T1\<close> is pending.
\<close>

theorem mismatch_leaves_pending_token_witness:
  "csrf_token (fst (oauth_callback (example_env ''T1'' True) example_secrets example_oauth
          ''https://x/?code=ABC&state=WRONG'' pending_session)) = Some ''T1''"
proof -
  have m: "ShowError AntiForgeryMismatch \<in> set [ShowError AntiForgeryMismatch]"
    by simp
  have t: "csrf_token pending_session = Some ''T1''"
    by (simp add: pending_session_def)
  show ?thesis
    using mismatch_leaves_pending_token [OF example_mismatch_callback m] t
    by (simp add: example_mismatch_callback)
qed

lemma example_env_simps:
  "get_authorization_url (example_env token ok) = (\<lambda>redirect_uri. Inr (''https://auth/?state='' @ token, token))"
  "exchange_code (example_env token ok) = (\<lambda>code. Inr (''AT1'', Some ''RT1''))"
  "get_current_user (example_env token ok) = (\<lambda>c. if ok then Inr (User ''Alice'') else Inl (SdkError ''401''))"
  "parse_query (example_env token ok) = example_parse_query"
  by (simp_all add: example_env_def)

lemma example_ui_simps:
  "logout_button (example_ui chosen url pressed) = pressed"
  "auth_method_radio (example_ui chosen url pressed) = chosen"
  "open_link_button (example_ui chosen url pressed) = False"
  "auth_code_url (example_ui chosen url pressed) = url"
  by (simp_all add: example_ui_def)

lemma example_begin_authorization:
  "begin_authorization (example_env token ok) example_secrets
     = Inr (example_oauth, ''https://auth/?state='' @ token, token)"
  by (simp add: begin_authorization_def check_secrets_available_def secrets_get_def split_dot_def
        oauth_settings_def secret_value_def secrets_getitem_def example_env_simps
        example_secrets_def example_oauth_def)

text \<open>
  C6: a callback URL without a \<open>code\<close> parameter is answered with the message of line 205
  and the token \<open>T1\<close> issued in that run stays stored; but the next run issues the token \<open>T2\<close>
  and stores it over \<open>T1\<close> before it looks at the callback, so the callback that now carries
  a code and the state \<open>T1\<close> is rejected with the CSRF mismatch instead of succeeding.
\<close>

theorem retry_after_malformed_callback_rejected:
  "oauth2_authentication_secrets (example_env ''T1'' True)
     (example_ui OAuth_2_0 ''https://x/?state=T1'' False) example_secrets initial_session
     = (pending_session, [ShowLink ''https://auth/?state=T1'', ShowError MalformedCallback]) \<and>
   csrf_token pending_session = Some ''T1'' \<and>
   oauth2_authentication_secrets (example_env ''T2'' True)
     (example_ui OAuth_2_0 ''https://x/?code=ABC&state=T1'' False) example_secrets pending_session
     = (pending_session\<lparr>csrf_token := Some ''T2''\<rparr>,
        [ShowLink ''https://auth/?state=T2'', ShowError AntiForgeryMismatch])"
  by (simp add: oauth_run_Inr [OF example_begin_authorization] oauth_callback_def first_state_def
        example_env_simps example_ui_simps example_parse_query_def pending_session_def)

lemma run_strategy_cases:
  assumes "run_strategy chosen e inp secrets s = (s', evs)"
  shows "(authenticated s' = Some True \<and> client s' \<noteq> None \<and> user s' \<noteq> None \<and> has_token_material s') \<or>
         (authenticated s' = authenticated s \<and> client s' = client s \<and> user s' = user s)"
proof (cases chosen)
  case OAuth_2_0
  with assms have run: "oauth2_authentication_secrets e inp secrets s = (s', evs)"
    by (simp add: run_strategy_def)
  show ?thesis
  proof (cases "begin_authorization e secrets")
    case (Inl ev)
    with run show ?thesis by (simp add: oauth_run_Inl)
  next
    case (Inr r)
    obtain oa auth_url token where r: "r = (oa, auth_url, token)" by (cases r) auto
    let ?s1 = "s\<lparr>csrf_token := Some token, oauth := Some oa\<rparr>"
    let ?cb = "oauth_callback e secrets oa (auth_code_url inp) ?s1"
    have b: "begin_authorization e secrets = Inr (oa, auth_url, token)" using Inr r by simp
    show ?thesis
    proof (cases "auth_code_url inp = []")
      case True
      with run b show ?thesis by (auto simp: oauth_run_Inr split: if_splits)
    next
      case False
      with run b have s': "s' = fst ?cb" by (auto simp: oauth_run_Inr split: if_splits)
      have cb: "?cb = (s', snd ?cb)" using s' by simp
      from oauth_callback_cases [OF cb] show ?thesis
      proof
        assume "(\<exists>err. ShowError err \<in> set (snd ?cb)) \<and> Rerun \<notin> set (snd ?cb)"
        then obtain err where "ShowError err \<in> set (snd ?cb)" by blast
        from oauth_callback_failed [OF cb this] show ?thesis by simp
      next
        assume "Rerun \<in> set (snd ?cb) \<and> (\<forall>err. ShowError err \<notin> set (snd ?cb))"
        then have "Rerun \<in> set (snd ?cb)" by simp
        from oauth_callback_success [OF cb this] show ?thesis
          by (auto simp: has_token_material_store_tokens)
      qed
    qed
  qed
next
  case JWT
  with assms have "jwt_authentication_secrets e inp secrets s = (s', evs)"
    by (simp add: run_strategy_def)
  from jwt_run_cases [OF this] show ?thesis by (auto simp: has_token_material_def)
next
  case Developer_Token
  with assms have "developer_token_authentication_secrets e inp secrets s = (s', evs)"
    by (simp add: run_strategy_def)
  from developer_run_cases [OF this] show ?thesis by (auto simp: has_token_material_def)
qed

lemma reachable_invariant:
  "reachable s \<Longrightarrow>
     (authenticated s = Some True \<longrightarrow> client s \<noteq> None \<and> user s \<noteq> None \<and> has_token_material s) \<and>
     (client s \<noteq> None \<longrightarrow> authenticated s = Some True)"
proof (induction rule: reachable.induct)
  case reachable_initial
  show ?case by (simp add: initial_session_def)
next
  case (reachable_run s e inp secrets)
  show ?case
  proof (cases "authenticated s = Some True \<and> client s \<noteq> None")
    case True
    with reachable_run.IH show ?thesis
      by (auto simp: authenticate_def logout_def split: option.splits)
  next
    case False
    with reachable_run.IH have pre: "authenticated s \<noteq> Some True" "client s = None" by auto
    from False have eq: "authenticate e inp secrets s = run_strategy (auth_method_radio inp) e inp secrets s"
      by (auto simp: authenticate_def)
    have "run_strategy (auth_method_radio inp) e inp secrets s =
            (fst (authenticate e inp secrets s), snd (authenticate e inp secrets s))"
      using eq by simp
    from run_strategy_cases [OF this] pre show ?thesis by auto
  qed
qed

text \<open>
  C7: in every session reachable from the initial one by script runs (any strategy,
  logout, failed attempts), \<open>authenticated\<close> is true if and only if the user, the token
  material and the client are all present.
\<close>

theorem authenticated_iff_all_present:
  assumes "reachable s"
  shows "authenticated s = Some True \<longleftrightarrow> user s \<noteq> None \<and> has_token_material s \<and> client s \<noteq> None"
  using reachable_invariant [OF assms] by blast

lemma example_jwt_login:
  "fst (authenticate (example_env ''T1'' True) (example_ui JWT [] True) example_secrets initial_session)
     = initial_session
          \<lparr>authenticated := Some True,
           client := Some (Client (JWTAuth (VDict [(''boxAppSettings'', VDict []), (''enterpriseID'', VStr ''E1'')]))),
           user := Some (User ''Alice''),
           auth_credentials :=
             Some ((current_credentials initial_session)
                     (''jwt_config'' \<mapsto> VDict [(''boxAppSettings'', VDict []), (''enterpriseID'', VStr ''E1'')]))\<rparr>"
proof -
  have "authenticate (example_env ''T1'' True) (example_ui JWT [] True) example_secrets initial_session
          = run_strategy JWT (example_env ''T1'' True) (example_ui JWT [] True) example_secrets initial_session"
    by (simp add: authenticate_def initial_session_def example_ui_def)
  then show ?thesis by (simp add: example_jwt_success_run)
qed

text \<open>
  C7 at the session a successful signed-assertion login produces.
\<close>

theorem authenticated_iff_all_present_witness:
  "authenticated (fst (authenticate (example_env ''T1'' True) (example_ui JWT [] True)
      example_secrets initial_session)) = Some True \<and>
   has_token_material (fst (authenticate (example_env ''T1'' True) (example_ui JWT [] True)
      example_secrets initial_session))"
proof -
  have r: "reachable (fst (authenticate (example_env ''T1'' True) (example_ui JWT [] True)
      example_secrets initial_session))"
    by (rule reachable_run [OF reachable_initial])
  have a: "authenticated (fst (authenticate (example_env ''T1'' True) (example_ui JWT [] True)
      example_secrets initial_session)) = Some True"
    by (simp add: example_jwt_login)
  show ?thesis
    using authenticated_iff_all_present [OF r] a by simp
qed

lemma authenticated_session_fields:
  "authenticated authenticated_session = Some True"
  "client authenticated_session = Some (Client example_oauth)"
  "user authenticated_session = Some (User ''Alice'')"
  "csrf_token authenticated_session = Some ''T1''"
  "access_token authenticated_session = Some ''AT1''"
  by (simp_all add: authenticated_session_def oauth_callback_def oauth_authenticate_eq
        fst_store_tokens_fields first_state_def example_env_simps example_parse_query_def
        pending_session_def)

text \<open>
  C8, as stated, fails: a logout from the session a successful delegated authorization
  left, which holds the CSRF token \<open>T1\<close> and the access token \<open>AT1\<close>, leaves both in the
  session; lines 62 to 65 clear four keys, and neither \<open>csrf_token\<close> nor \<open>access_token\<close> is
  one of them.
\<close>

theorem logout_keeps_pending_token_counterexample:
  "snd (authenticate (example_env ''T2'' True) (example_ui OAuth_2_0 [] True) example_secrets
          authenticated_session) = [AlreadyAuthenticated ''Alice'', Rerun] \<and>
   authenticated (fst (authenticate (example_env ''T2'' True) (example_ui OAuth_2_0 [] True)
          example_secrets authenticated_session)) = Some False \<and>
   csrf_token (fst (authenticate (example_env ''T2'' True) (example_ui OAuth_2_0 [] True)
          example_secrets authenticated_session)) = Some ''T1'' \<and>
   access_token (fst (authenticate (example_env ''T2'' True) (example_ui OAuth_2_0 [] True)
          example_secrets authenticated_session)) = Some ''AT1''"
  by (simp add: authenticate_def logout_def authenticated_session_fields example_ui_simps)

text \<open>
  C8, amended: a logout from an authenticated session sets \<open>authenticated\<close> to false and
  clears the client, the user and the credentials stored under \<open>auth_credentials\<close>; it does
  not touch the CSRF token.
\<close>

theorem logout_effect:
  assumes "authenticated s = Some True" and "client s \<noteq> None" and "user s = Some u"
    and "logout_button inp"
  shows "\<exists>s'. authenticate e inp secrets s = (s', [AlreadyAuthenticated (user_name u), Rerun]) \<and>
           authenticated s' = Some False \<and> client s' = None \<and> user s' = None \<and>
           auth_credentials s' = None \<and> csrf_token s' = csrf_token s"
  using assms by (simp add: authenticate_def logout_def)

text \<open>The amended C8 at the session a successful delegated authorization left.\<close>

theorem logout_effect_witness:
  "\<exists>s'. authenticate (example_env ''T2'' True) (example_ui OAuth_2_0 [] True) example_secrets
           authenticated_session = (s', [AlreadyAuthenticated ''Alice'', Rerun]) \<and>
         authenticated s' = Some False \<and> client s' = None \<and> user s' = None \<and>
         auth_credentials s' = None \<and> csrf_token s' = Some ''T1''"
proof -
  have a: "authenticated authenticated_session = Some True"
    by (simp add: authenticated_session_fields)
  have c: "client authenticated_session \<noteq> None"
    by (simp add: authenticated_session_fields)
  have u: "user authenticated_session = Some (User ''Alice'')"
    by (simp add: authenticated_session_fields)
  have l: "logout_button (example_ui OAuth_2_0 [] True)"
    by (simp add: example_ui_simps)
  show ?thesis
    using logout_effect [OF a c u l, of "example_env ''T2'' True" example_secrets]
    by (simp add: authenticated_session_fields)
qed




end
